theory Spec2Isabelle
  imports Main
begin

section \<open>Mutable default arguments (concepts/mutable\_default\_arguments.py)\<close>

text \<open>
  Python lists are objects on the heap; a variable, an argument and the tuple
  \<open>__defaults__\<close> of a function hold references to them. Whether two names
  denote the same list object is what the script is about, so list objects live in
  an explicit store and \<open>emp_list\<close> is either \<open>None\<close> or a reference.
\<close>

type_synonym addr = nat

datatype pyval = PyNone | PyList addr

text \<open>The exceptions the scripts raise or catch.\<close>

datatype py_error = AttributeError | TypeError | ValueError | PicklingError

text \<open>
  The state of the module: the contents of every list object, the next unused
  address, the one-element tuples \<open>add_employee.__defaults__\<close> and
  \<open>add_employee_fixed.__defaults__\<close>, and the lists printed so far (oldest first,
  each as its contents at the moment of printing).
\<close>

record 'e pystate =
  heap :: "addr \<Rightarrow> 'e list"
  nxt :: addr
  add_employee_defaults :: pyval
  add_employee_fixed_defaults :: pyval
  stdout :: "'e list list"

text \<open>Evaluating the display \<open>[]\<close>: a new, empty list object.\<close>

definition new_list :: "'e pystate \<Rightarrow> addr \<times> 'e pystate" where
  "new_list s = (nxt s, s\<lparr>heap := (heap s)(nxt s := []), nxt := Suc (nxt s)\<rparr>)"

text \<open>\<open>emp_list.append(emp)\<close> followed by \<open>print(emp_list)\<close> on the list object at \<open>a\<close>.\<close>

definition append_and_print :: "addr \<Rightarrow> 'e \<Rightarrow> 'e pystate \<Rightarrow> 'e pystate" where
  "append_and_print a emp s =
     (let s1 = s\<lparr>heap := (heap s)(a := heap s a @ [emp])\<rparr>
      in s1\<lparr>stdout := stdout s1 @ [heap s1 a]\<rparr>)"

text \<open>
  The statement \<open>def add_employee(emp, emp_list=[])\<close>: the default expression is
  evaluated here, once, and the reference is stored in \<open>__defaults__\<close>.
\<close>

definition def_add_employee :: "'e pystate \<Rightarrow> 'e pystate" where
  "def_add_employee s =
     (let (a, s1) = new_list s in s1\<lparr>add_employee_defaults := PyList a\<rparr>)"

text \<open>
  A call of \<open>add_employee\<close>. The second argument is \<open>None\<close> when the caller passes
  no \<open>emp_list\<close> (the stored default is used) and \<open>Some v\<close> when the caller passes
  \<open>v\<close>. \<open>None.append\<close> raises AttributeError.
\<close>

definition add_employee :: "'e \<Rightarrow> pyval option \<Rightarrow> 'e pystate \<Rightarrow> py_error + 'e pystate" where
  "add_employee emp arg s =
     (let emp_list = (case arg of None \<Rightarrow> add_employee_defaults s | Some v \<Rightarrow> v)
      in case emp_list of
           PyNone \<Rightarrow> Inl AttributeError
         | PyList a \<Rightarrow> Inr (append_and_print a emp s))"

text \<open>A sequence of calls \<open>add_employee(e)\<close> without an explicit list, in order.\<close>

fun add_employee_calls :: "'e list \<Rightarrow> 'e pystate \<Rightarrow> py_error + 'e pystate" where
  "add_employee_calls [] s = Inr s"
| "add_employee_calls (e # es) s =
     (case add_employee e None s of
        Inl err \<Rightarrow> Inl err
      | Inr s1 \<Rightarrow> add_employee_calls es s1)"

text \<open>The statement \<open>def add_employee_fixed(emp, emp_list=None)\<close>.\<close>

definition def_add_employee_fixed :: "'e pystate \<Rightarrow> 'e pystate" where
  "def_add_employee_fixed s = s\<lparr>add_employee_fixed_defaults := PyNone\<rparr>"

text \<open>
  A call of \<open>add_employee_fixed\<close>: when \<open>emp_list is None\<close> a new list is made for
  this call; then append and print as before.
\<close>

definition add_employee_fixed :: "'e \<Rightarrow> pyval option \<Rightarrow> 'e pystate \<Rightarrow> 'e pystate" where
  "add_employee_fixed emp arg s =
     (let emp_list = (case arg of None \<Rightarrow> add_employee_fixed_defaults s | Some v \<Rightarrow> v)
      in case emp_list of
           PyNone \<Rightarrow> (let (a, s1) = new_list s in append_and_print a emp s1)
         | PyList a \<Rightarrow> append_and_print a emp s)"

text \<open>Any sequence of calls of \<open>add_employee_fixed\<close>, with or without an explicit list.\<close>

fun add_employee_fixed_calls :: "('e \<times> pyval option) list \<Rightarrow> 'e pystate \<Rightarrow> 'e pystate" where
  "add_employee_fixed_calls [] s = s"
| "add_employee_fixed_calls ((e, arg) # cs) s =
     add_employee_fixed_calls cs (add_employee_fixed e arg s)"

text \<open>
  The top of the script up to the first call without a list: the module starts with
  no objects, defines \<open>add_employee\<close>, builds \<open>emps = ["John", "Jane"]\<close> and calls
  \<open>add_employee("Aditya", emps)\<close>.
\<close>

definition module_start :: "string pystate" where
  "module_start =
     \<lparr>heap = (\<lambda>_. []), nxt = 0, add_employee_defaults = PyNone,
      add_employee_fixed_defaults = PyNone, stdout = []\<rparr>"

definition script_before_default_calls :: "py_error + string pystate" where
  "script_before_default_calls =
     (let s1 = def_add_employee module_start;
          (emps, s2) = new_list s1;
          s3 = s2\<lparr>heap := (heap s2)(emps := [''John'', ''Jane''])\<rparr>
      in add_employee ''Aditya'' (Some (PyList emps)) s3)"


section \<open>Strings\<close>

text \<open>
  A Python \<open>str\<close> is a sequence of Unicode code points, and \<open>len\<close>, \<open>startswith\<close>,
  \<open>replace\<close>, \<open>isalnum\<close> and \<open>lower\<close> work on code points. The 8-bit \<open>char\<close> of
  HOL cannot hold them, so a \<open>str\<close> is a list of code points; \<open>str_of\<close> reads an
  ASCII literal of the source.
\<close>

type_synonym codepoint = nat
type_synonym pystr = "codepoint list"

definition str_of :: "string \<Rightarrow> pystr" where
  "str_of cs = map of_char cs"

text \<open>\<open>v.startswith((p1, ..., pn))\<close>: some element of the tuple is a prefix of \<open>v\<close>.\<close>

definition startswith :: "pystr \<Rightarrow> pystr list \<Rightarrow> bool" where
  "startswith v ps = list_ex (\<lambda>p. take (length p) v = p) ps"

text \<open>\<open>v.replace(old, new)\<close> for a one-character \<open>old\<close>.\<close>

definition str_replace_char :: "codepoint \<Rightarrow> pystr \<Rightarrow> pystr \<Rightarrow> pystr" where
  "str_replace_char old new v = concat (map (\<lambda>c. if c = old then new else [c]) v)"

text \<open>
  \<open>isalnum\<close> and \<open>lower\<close> read the interpreter's Unicode character database, which
  is not part of the repository: it is a parameter. \<open>cp_isalnum\<close> says whether a
  one-character string is alphanumeric, \<open>str_lower\<close> is \<open>str.lower\<close>.
\<close>

record unicode_db =
  cp_isalnum :: "codepoint \<Rightarrow> bool"
  str_lower :: "pystr \<Rightarrow> pystr"

text \<open>\<open>s.isalnum()\<close>: at least one character, and every character alphanumeric.\<close>

definition str_isalnum :: "unicode_db \<Rightarrow> pystr \<Rightarrow> bool" where
  "str_isalnum db s = (s \<noteq> [] \<and> list_all (cp_isalnum db) s)"

text \<open>What every version of the database says about ASCII.\<close>

definition ascii_isalnum :: "codepoint \<Rightarrow> bool" where
  "ascii_isalnum c = (0x30 \<le> c \<and> c \<le> 0x39 \<or> 0x41 \<le> c \<and> c \<le> 0x5A \<or> 0x61 \<le> c \<and> c \<le> 0x7A)"

definition ascii_upper_case :: "codepoint \<Rightarrow> bool" where
  "ascii_upper_case c = (0x41 \<le> c \<and> c \<le> 0x5A)"

definition ascii_lower :: "codepoint \<Rightarrow> codepoint" where
  "ascii_lower c = (if ascii_upper_case c then c + 0x20 else c)"

definition isascii :: "pystr \<Rightarrow> bool" where
  "isascii v = list_all (\<lambda>c. c < 0x80) v"

definition agrees_on_ascii :: "unicode_db \<Rightarrow> bool" where
  "agrees_on_ascii db =
     ((\<forall>c. c < 0x80 \<longrightarrow> cp_isalnum db c = ascii_isalnum c)
      \<and> (\<forall>v. isascii v \<longrightarrow> str_lower db v = map ascii_lower v))"

text \<open>
  An excerpt of the database for concrete runs: the ASCII rows, and the rows of
  U+0130 (LATIN CAPITAL LETTER I WITH DOT ABOVE: a letter, whose lowercase is the two
  code points U+0069 U+0307) and U+0307 (COMBINING DOT ABOVE: a mark, not alphanumeric,
  caseless). Code points outside the excerpt are given no letter status and no case
  mapping; the excerpt is only run on strings inside it.
\<close>

definition excerpt_isalnum :: "codepoint \<Rightarrow> bool" where
  "excerpt_isalnum c = (ascii_isalnum c \<or> c = 0x130)"

definition excerpt_lower_cp :: "codepoint \<Rightarrow> pystr" where
  "excerpt_lower_cp c = (if c = 0x130 then [0x69, 0x307] else [ascii_lower c])"

definition unicode_excerpt :: unicode_db where
  "unicode_excerpt =
     \<lparr>cp_isalnum = excerpt_isalnum, str_lower = (\<lambda>v. concat (map excerpt_lower_cp v))\<rparr>"


section \<open>Custom validators (libraries/pydantic/05\_custom\_validator.py)\<close>

text \<open>
  \<open>User.validate_username\<close>: raise ValueError unless the name without its underscores
  is alphanumeric, otherwise return the name in lower case.
\<close>

definition validate_username :: "unicode_db \<Rightarrow> pystr \<Rightarrow> py_error + pystr" where
  "validate_username db v =
     (if \<not> str_isalnum db (str_replace_char 0x5F [] v)
      then Inl ValueError
      else Inr (str_lower db v))"

text \<open>
  \<open>User.add_https\<close>, for \<open>v: str | None\<close>. \<open>if v\<close> is Python's truth test: \<open>None\<close>
  and the empty string are false.
\<close>

definition truthy :: "pystr option \<Rightarrow> bool" where
  "truthy v = (case v of None \<Rightarrow> False | Some s \<Rightarrow> s \<noteq> [])"

definition url_schemes :: "pystr list" where
  "url_schemes = [str_of ''http://'', str_of ''https://'']"

definition add_https :: "pystr option \<Rightarrow> pystr option" where
  "add_https v =
     (case v of
        None \<Rightarrow> v
      | Some s \<Rightarrow>
          if truthy v \<and> \<not> startswith s url_schemes
          then Some (str_of ''https://'' @ s)
          else v)"


section \<open>Annotated constraints (libraries/pydantic/03\_annotated.py)\<close>

text \<open>
  The \<open>pattern\<close> of the email field is a regular expression. Patterns are terms; a
  character class is a list of inclusive code-point ranges. The pattern of the script
  starts with \<open>^\<close> and ends with \<open>$\<close>, so a string passes when the whole of it
  matches (\<open>$\<close> taken as the end of the input), which \<open>matches\<close> decides by
  derivatives.
\<close>

datatype rexp =
  Zero | One | Class "(codepoint \<times> codepoint) list"
  | Alt rexp rexp | Times rexp rexp | Star rexp

definition in_class :: "(codepoint \<times> codepoint) list \<Rightarrow> codepoint \<Rightarrow> bool" where
  "in_class rs c = list_ex (\<lambda>(lo, hi). lo \<le> c \<and> c \<le> hi) rs"

fun nullable :: "rexp \<Rightarrow> bool" where
  "nullable Zero = False"
| "nullable One = True"
| "nullable (Class rs) = False"
| "nullable (Alt r s) = (nullable r \<or> nullable s)"
| "nullable (Times r s) = (nullable r \<and> nullable s)"
| "nullable (Star r) = True"

fun deriv :: "codepoint \<Rightarrow> rexp \<Rightarrow> rexp" where
  "deriv c Zero = Zero"
| "deriv c One = Zero"
| "deriv c (Class rs) = (if in_class rs c then One else Zero)"
| "deriv c (Alt r s) = Alt (deriv c r) (deriv c s)"
| "deriv c (Times r s) =
     (if nullable r then Alt (Times (deriv c r) s) (deriv c s) else Times (deriv c r) s)"
| "deriv c (Star r) = Times (deriv c r) (Star r)"

fun matches :: "rexp \<Rightarrow> pystr \<Rightarrow> bool" where
  "matches r [] = nullable r"
| "matches r (c # cs) = matches (deriv c r) cs"

text \<open>\<open>r+\<close>, \<open>r{2,}\<close>, a single character, and a range \<open>a-z\<close> of a class.\<close>

definition plus_rexp :: "rexp \<Rightarrow> rexp" where
  "plus_rexp r = Times r (Star r)"

definition at_least_two :: "rexp \<Rightarrow> rexp" where
  "at_least_two r = Times r (Times r (Star r))"

definition chr_range :: "char \<Rightarrow> char \<Rightarrow> codepoint \<times> codepoint" where
  "chr_range a b = (of_char a, of_char b)"

definition chr_rexp :: "char \<Rightarrow> rexp" where
  "chr_rexp a = Class [chr_range a a]"

text \<open>\<open>^[a-zA-Z0-9._%+-]+@[a-zA-Z0-9.-]+\.[a-zA-Z]{2,}$\<close>\<close>

definition email_pattern :: rexp where
  "email_pattern =
     Times (plus_rexp (Class [chr_range CHR ''a'' CHR ''z'', chr_range CHR ''A'' CHR ''Z'',
                              chr_range CHR ''0'' CHR ''9'', chr_range CHR ''.'' CHR ''.'',
                              chr_range CHR ''_'' CHR ''_'', chr_range CHR ''%'' CHR ''%'',
                              chr_range CHR ''+'' CHR ''+'', chr_range CHR ''-'' CHR ''-'']))
    (Times (chr_rexp CHR ''@'')
    (Times (plus_rexp (Class [chr_range CHR ''a'' CHR ''z'', chr_range CHR ''A'' CHR ''Z'',
                              chr_range CHR ''0'' CHR ''9'', chr_range CHR ''.'' CHR ''.'',
                              chr_range CHR ''-'' CHR ''-'']))
    (Times (chr_rexp CHR ''.'')
           (at_least_two (Class [chr_range CHR ''a'' CHR ''z'', chr_range CHR ''A'' CHR ''Z''])))))"

text \<open>The keyword arguments of \<open>User(...)\<close>, already of the declared types.\<close>

record user_data =
  uid :: int
  username :: pystr
  email :: pystr
  age :: int

text \<open>The error types the constraints of the model report.\<close>

datatype error_type =
  greater_than | greater_than_equal | less_than_equal
  | string_too_short | string_too_long | string_pattern_mismatch

text \<open>\<open>Field(gt=b)\<close>, \<open>Field(ge=lo, le=hi)\<close>, \<open>Field(min_length=m, max_length=n)\<close>
  (the length of a \<open>str\<close> is its number of code points) and \<open>Field(pattern=r)\<close>.\<close>

definition field_gt :: "int \<Rightarrow> int \<Rightarrow> error_type list" where
  "field_gt b v = (if v > b then [] else [greater_than])"

definition field_ge_le :: "int \<Rightarrow> int \<Rightarrow> int \<Rightarrow> error_type list" where
  "field_ge_le lo hi v =
     (if \<not> v \<ge> lo then [greater_than_equal]
      else if \<not> v \<le> hi then [less_than_equal]
      else [])"

definition field_length :: "nat \<Rightarrow> nat \<Rightarrow> pystr \<Rightarrow> error_type list" where
  "field_length m n v =
     (if length v < m then [string_too_short]
      else if length v > n then [string_too_long]
      else [])"

definition field_pattern :: "rexp \<Rightarrow> pystr \<Rightarrow> error_type list" where
  "field_pattern r v = (if matches r v then [] else [string_pattern_mismatch])"

text \<open>
  Modelled from the spec: the constructor of \<open>User\<close> is generated by the validation
  library's \<open>BaseModel\<close>, which is not in the repository. The constraints below are the
  \<open>Field\<close> declarations of the class, in the order of its fields; that every field is
  checked and the failures are reported together in one ValidationError is the library's
  behaviour, which the spec calls aggregated field errors and the script records in its
  closing comment. \<open>Inl\<close> is the ValidationError with its list of (field, error type).
\<close>

definition annotated_User :: "user_data \<Rightarrow> (string \<times> error_type) list + user_data" where
  "annotated_User u =
     (let errors =
            map (Pair ''uid'') (field_gt 0 (uid u))
          @ map (Pair ''username'') (field_length 3 20 (username u))
          @ map (Pair ''email'') (field_pattern email_pattern (email u))
          @ map (Pair ''age'') (field_ge_le 13 130 (age u))
      in if errors = [] then Inr u else Inl errors)"

text \<open>The construction the script attempts.\<close>

definition invalid_user :: user_data where
  "invalid_user =
     \<lparr>uid = 0, username = str_of ''cs'', email = str_of ''aditya@email.com'', age = 12\<rparr>"


section \<open>Pickling for the process pool (libraries/concurrent\_futures/processpool\_01\_pickle.py)\<close>

text \<open>
  The values of the demo: integers and instances of the module-level class
  \<open>Picklable\<close>, which holds \<open>val\<close>.
\<close>

datatype pyobj = PyInt int | Picklable int

text \<open>
  The four callables the script submits, with the qualified name Python gives each:
  \<open>nested_task\<close> and the lambda are created inside \<open>main\<close>.
\<close>

datatype task_fn = top_level_task | nested_task | lambda_task | compute

fun qualname :: "task_fn \<Rightarrow> string" where
  "qualname top_level_task = ''top_level_task''"
| "qualname nested_task = ''main.<locals>.nested_task''"
| "qualname lambda_task = ''main.<locals>.<lambda>''"
| "qualname compute = ''compute''"

text \<open>
  What each callable computes. \<open>n * n\<close> on an object without multiplication raises
  TypeError, \<open>obj.compute()\<close> on an integer raises AttributeError;
  \<open>Picklable.compute\<close> returns \<open>self.val * 2\<close>.
\<close>

fun call_task :: "task_fn \<Rightarrow> pyobj \<Rightarrow> py_error + pyobj" where
  "call_task compute (Picklable v) = Inr (PyInt (v * 2))"
| "call_task compute (PyInt n) = Inl AttributeError"
| "call_task f (PyInt n) = Inr (PyInt (n * n))"
| "call_task f (Picklable v) = Inl TypeError"

text \<open>
  The names bound at the top level of the module. A function is pickled by reference:
  it can be sent to a worker process only if its qualified name is one of these, as
  the docstring of the script says (nested functions and lambdas are not picklable).
  The error stands for the PicklingError or AttributeError the interpreter raises.
\<close>

definition module_names :: "string list" where
  "module_names = [''top_level_task'', ''Picklable'', ''compute'', ''main'']"

definition picklable :: "task_fn \<Rightarrow> bool" where
  "picklable f = (qualname f \<in> set module_names)"

text \<open>
  \<open>executor.submit(f, x).result()\<close>: the value \<open>f(x)\<close> computed in a worker, or the
  exception of the failed pickling or of the call.
\<close>

definition submit_result :: "task_fn \<Rightarrow> pyobj \<Rightarrow> py_error + pyobj" where
  "submit_result f x = (if picklable f then call_task f x else Inl PicklingError)"

text \<open>
  \<open>[f.result() for f in futures]\<close>: the results in submission order; the first
  exception leaves the comprehension.
\<close>

fun collect_results :: "(py_error + 'a) list \<Rightarrow> py_error + 'a list" where
  "collect_results [] = Inr []"
| "collect_results (Inl e # rs) = Inl e"
| "collect_results (Inr x # rs) =
     (case collect_results rs of Inl e \<Rightarrow> Inl e | Inr xs \<Rightarrow> Inr (x # xs))"

definition pool_results :: "task_fn \<Rightarrow> pyobj list \<Rightarrow> py_error + pyobj list" where
  "pool_results f xs = collect_results (map (submit_result f) xs)"

definition py_range :: "nat \<Rightarrow> int list" where
  "py_range n = map int [0..<n]"

text \<open>
  What \<open>main\<close> prints besides its headings: a line of results, or the caught
  exception. The first and the last block have no \<open>try\<close>, so an exception there leaves
  \<open>main\<close>; the two middle blocks catch every exception and print it.
\<close>

datatype out_line = Results "pyobj list" | Caught_exception py_error

definition try_block :: "py_error + pyobj list \<Rightarrow> out_line" where
  "try_block r = (case r of Inl e \<Rightarrow> Caught_exception e | Inr xs \<Rightarrow> Results xs)"

definition main :: "py_error + out_line list" where
  "main =
     (case pool_results top_level_task (map PyInt (py_range 5)) of
        Inl e \<Rightarrow> Inl e
      | Inr results1 \<Rightarrow>
          (let line2 = try_block (pool_results nested_task (map PyInt (py_range 5)));
               line3 = try_block (pool_results lambda_task (map PyInt (py_range 5)));
               objects = map Picklable (py_range 5)
           in case pool_results compute objects of
                Inl e \<Rightarrow> Inl e
              | Inr results4 \<Rightarrow> Inr [Results results1, line2, line3, Results results4]))"


section \<open>Routing (frameworks/fastapi)\<close>

text \<open>
  \<open>@app.get(path, ...)\<close> appends a GET route for the decorated function to the routes
  of the application. Only the routes that the scripts register are listed, not the
  documentation routes the framework adds by itself.
\<close>

datatype response_class = JSONResponse | HTMLResponse

record 'f route =
  path :: string
  endpoint :: 'f
  response_class :: response_class
  include_in_schema :: bool

definition app_get ::
  "string \<Rightarrow> response_class \<Rightarrow> bool \<Rightarrow> 'f \<Rightarrow> 'f route list \<Rightarrow> 'f route list" where
  "app_get p rc sch f routes =
     routes @ [\<lparr>path = p, endpoint = f, response_class = rc, include_in_schema = sch\<rparr>]"

text \<open>A request is served by the first route whose path is the requested one.\<close>

definition find_route :: "'f route list \<Rightarrow> string \<Rightarrow> 'f route option" where
  "find_route routes p = find (\<lambda>r. path r = p) routes"

text \<open>
  concepts/00\_basic.py. Stacked decorators apply from the innermost outwards, so
  \<open>/info\<close> is registered before \<open>/about\<close>; both for the same function \<open>about\<close>.
\<close>

datatype basic_endpoint = home | about

datatype basic_body = JsonDict "(string \<times> string) list" | HtmlBody string

fun basic_handler :: "basic_endpoint \<Rightarrow> basic_body" where
  "basic_handler home = JsonDict [(''message'', ''Hello World!'')]"
| "basic_handler about = HtmlBody ''<h1>This is the HTML response page</h1>''"

definition basic_app :: "basic_endpoint route list" where
  "basic_app =
     (let app0 = [];
          app1 = app_get ''/'' JSONResponse True home app0;
          app2 = app_get ''/info'' HTMLResponse True about app1;
          app3 = app_get ''/about'' HTMLResponse True about app2
      in app3)"

definition basic_serve :: "string \<Rightarrow> (response_class \<times> basic_body) option" where
  "basic_serve p =
     (case find_route basic_app p of
        None \<Rightarrow> None
      | Some r \<Rightarrow> Some (response_class r, basic_handler (endpoint r)))"

text \<open>
  tutorial\_projects/fastapi\_blog/main.py: \<open>home\<close> (here \<open>blog_home\<close>) for \<open>/posts\<close> and
  \<open>/\<close>, rendering a template with the posts, and \<open>get_posts\<close> for \<open>/api/posts\<close>.
\<close>

datatype jval = JInt int | JStr string

type_synonym post = "(string \<times> jval) list"

definition posts :: "post list" where
  "posts =
     [[(''id'', JInt 1), (''author'', JStr ''Corey Schafer''),
       (''title'', JStr ''FastAPI is Awesome''),
       (''content'', JStr ''This framework is really easy to use and super fast.''),
       (''date_posted'', JStr ''April 20, 2025'')],
      [(''id'', JInt 2), (''author'', JStr ''Jane Doe''),
       (''title'', JStr ''Python is Great for Web Development''),
       (''content'', JStr ''Python is a great language for web development, and FastAPI makes it even better.''),
       (''date_posted'', JStr ''April 21, 2025'')]]"

datatype blog_endpoint = blog_home | get_posts

datatype blog_body = TemplateResponse string "(string \<times> post list) list" | JsonPosts "post list"

fun blog_handler :: "blog_endpoint \<Rightarrow> blog_body" where
  "blog_handler blog_home = TemplateResponse ''home.html'' [(''posts'', posts)]"
| "blog_handler get_posts = JsonPosts posts"

definition blog_app :: "blog_endpoint route list" where
  "blog_app =
     (let app0 = [];
          app1 = app_get ''/posts'' JSONResponse False blog_home app0;
          app2 = app_get ''/'' JSONResponse False blog_home app1;
          app3 = app_get ''/api/posts'' JSONResponse True get_posts app2
      in app3)"


section \<open>The shared default list\<close>

lemma def_add_employee_default:
  "add_employee_defaults (def_add_employee s) = PyList (nxt s)"
  "heap (def_add_employee s) (nxt s) = []"
  by (simp_all add: def_add_employee_def new_list_def)

lemma add_employee_default_step:
  "add_employee_defaults s = PyList a \<Longrightarrow>
   add_employee e None s =
     Inr (s\<lparr>heap := (heap s)(a := heap s a @ [e]), stdout := stdout s @ [heap s a @ [e]]\<rparr>)"
  by (simp add: add_employee_def append_and_print_def Let_def)

lemma add_employee_calls_default:
  "add_employee_defaults s = PyList a \<Longrightarrow>
   add_employee_calls es s =
     Inr (s\<lparr>heap := (heap s)(a := heap s a @ es),
            stdout := stdout s @ map (\<lambda>i. heap s a @ take i es) [1..<Suc (length es)]\<rparr>)"
proof (induction es arbitrary: s)
  case Nil
  then show ?case by simp
next
  case (Cons e es)
  let ?s1 = "s\<lparr>heap := (heap s)(a := heap s a @ [e]), stdout := stdout s @ [heap s a @ [e]]\<rparr>"
  have d: "add_employee_defaults ?s1 = PyList a"
    using Cons.prems by simp
  have shift: "[Suc 0..<Suc (Suc (length es))] = Suc 0 # map Suc [Suc 0..<Suc (length es)]"
    by (simp add: upt_conv_Cons map_Suc_upt del: upt_Suc)
  have twice: "(\<lambda>b. if b = a then x else if b = a then y else heap s b) =
      (\<lambda>b. if b = a then x else heap s b)" for x y
    by auto
  show ?case
    using Cons.IH [OF d] add_employee_default_step [OF Cons.prems, of e]
    by (simp add: shift twice comp_def del: upt_Suc)
qed

text \<open>
  C1. The default list of \<open>add_employee\<close> is one object, made when the function is
  defined (so it starts empty) and used by every call that passes no list. After the
  calls \<open>add_employee(e1)\<close>, ..., \<open>add_employee(en)\<close> the tuple
  \<open>__defaults__\<close> still refers to that object, the object holds exactly
  \<open>e1, ..., en\<close> in call order, and the calls have printed the prefixes of length
  \<open>1, ..., n\<close>: the i-th call prints a list of length i.
\<close>

theorem add_employee_default_accumulates:
  assumes "add_employee_defaults s = PyList a" and "heap s a = []"
  shows "\<exists>s'. add_employee_calls es s = Inr s'
           \<and> add_employee_defaults s' = PyList a
           \<and> heap s' a = es
           \<and> stdout s' = stdout s @ map (\<lambda>i. take i es) [1..<Suc (length es)]
           \<and> map length (drop (length (stdout s)) (stdout s')) = [1..<Suc (length es)]"
proof -
  have len: "map (length \<circ> (\<lambda>i. take i es)) [1..<Suc (length es)] = [1..<Suc (length es)]"
    by (rule map_idI) (simp del: upt_Suc)
  show ?thesis
    using add_employee_calls_default [OF assms(1), of es] assms len
    by (simp del: upt_Suc)
qed

theorem add_employee_default_accumulates_witness:
  "\<exists>s s'. script_before_default_calls = Inr s
      \<and> add_employee_defaults s = PyList 0 \<and> heap s 0 = []
      \<and> add_employee_calls [''Corey'', ''Casey'', ''Jack''] s = Inr s'
      \<and> add_employee_defaults s' = PyList 0
      \<and> heap s' 0 = [''Corey'', ''Casey'', ''Jack'']
      \<and> map length (drop (length (stdout s)) (stdout s')) = [1, 2, 3]"
proof -
  have "\<exists>s. script_before_default_calls = Inr s
          \<and> add_employee_defaults s = PyList 0 \<and> heap s 0 = []"
    by (simp add: script_before_default_calls_def def_add_employee_def new_list_def
        module_start_def add_employee_def append_and_print_def Let_def)
  then obtain s where s: "script_before_default_calls = Inr s"
    and d: "add_employee_defaults s = PyList 0" and h: "heap s 0 = []"
    by blast
  from add_employee_default_accumulates [OF d h, of "[''Corey'', ''Casey'', ''Jack'']"]
  obtain s' where r: "add_employee_calls [''Corey'', ''Casey'', ''Jack''] s = Inr s'"
      "add_employee_defaults s' = PyList 0"
      "heap s' 0 = [''Corey'', ''Casey'', ''Jack'']"
      "map length (drop (length (stdout s)) (stdout s')) = [1, 2, 3]"
    by (auto simp: upt_rec)
  show ?thesis
    by (intro exI [of _ s] exI [of _ s'] conjI s d h r)
qed


section \<open>The sentinel default\<close>

lemma append_and_print_fixed_defaults:
  "add_employee_fixed_defaults (append_and_print a e s) = add_employee_fixed_defaults s"
  by (simp add: append_and_print_def Let_def)

lemma add_employee_fixed_keeps_defaults:
  "add_employee_fixed_defaults (add_employee_fixed e arg s) = add_employee_fixed_defaults s"
  by (simp add: add_employee_fixed_def new_list_def append_and_print_fixed_defaults Let_def
      split: option.splits pyval.splits)

lemma add_employee_fixed_calls_keep_defaults:
  "add_employee_fixed_defaults (add_employee_fixed_calls cs s) = add_employee_fixed_defaults s"
  by (induction cs s rule: add_employee_fixed_calls.induct)
     (simp_all add: add_employee_fixed_keeps_defaults)

lemma add_employee_fixed_default_call:
  assumes "add_employee_fixed_defaults s = PyNone"
  shows "stdout (add_employee_fixed e None s) = stdout s @ [[e]]"
    and "heap (add_employee_fixed e None s) (nxt s) = [e]"
    and "nxt (add_employee_fixed e None s) = Suc (nxt s)"
  using assms
  by (simp_all add: add_employee_fixed_def new_list_def append_and_print_def Let_def)

text \<open>
  C7. The default of \<open>add_employee_fixed\<close> is \<open>None\<close> and stays \<open>None\<close>: after the
  definition and any sequence of calls (with or without an explicit list) the tuple
  \<open>__defaults__\<close> is \<open>(None,)\<close>. A further call without a list then makes a new
  list object at an unused address, prints the one-element list holding only that call's
  employee, and leaves \<open>__defaults__\<close> as it was.
\<close>

theorem add_employee_fixed_fresh_list:
  "add_employee_fixed_defaults (add_employee_fixed_calls cs (def_add_employee_fixed s)) = PyNone
   \<and> (let s1 = add_employee_fixed_calls cs (def_add_employee_fixed s);
           s2 = add_employee_fixed e None s1
       in stdout s2 = stdout s1 @ [[e]]
          \<and> heap s2 (nxt s1) = [e]
          \<and> nxt s2 = Suc (nxt s1)
          \<and> add_employee_fixed_defaults s2 = PyNone)"
proof -
  let ?s1 = "add_employee_fixed_calls cs (def_add_employee_fixed s)"
  have d: "add_employee_fixed_defaults ?s1 = PyNone"
    by (simp add: add_employee_fixed_calls_keep_defaults def_add_employee_fixed_def)
  show ?thesis
    using d add_employee_fixed_default_call [OF d, of e]
    by (simp add: Let_def add_employee_fixed_keeps_defaults)
qed

theorem add_employee_fixed_fresh_list_witness:
  "stdout (add_employee_fixed_calls [(''Aditya'', None), (''Corey'', None)]
     (def_add_employee_fixed module_start)) = [[''Aditya''], [''Corey'']]
   \<and> add_employee_fixed_defaults (add_employee_fixed_calls [(''Aditya'', None), (''Corey'', None)]
     (def_add_employee_fixed module_start)) = PyNone"
proof -
  have one: "stdout (add_employee_fixed_calls [(''Aditya'', None)]
      (def_add_employee_fixed module_start)) = [[''Aditya'']]"
    by (simp add: add_employee_fixed_def def_add_employee_fixed_def module_start_def
        new_list_def append_and_print_def Let_def)
  show ?thesis
    using add_employee_fixed_fresh_list [of "[(''Aditya'', None)]" module_start "''Corey''"] one
    by (simp add: Let_def add_employee_fixed_keeps_defaults)
qed


section \<open>The username validator\<close>

lemma ascii_lower_underscore: "ascii_lower c = 0x5F \<longleftrightarrow> c = 0x5F"
  by (auto simp: ascii_lower_def ascii_upper_case_def)

lemma ascii_lower_idem: "ascii_lower (ascii_lower c) = ascii_lower c"
  by (simp add: ascii_lower_def ascii_upper_case_def)

lemma ascii_lower_not_upper: "\<not> ascii_upper_case (ascii_lower c)"
  by (simp add: ascii_lower_def ascii_upper_case_def)

lemma ascii_lower_isalnum: "ascii_isalnum c \<Longrightarrow> ascii_isalnum (ascii_lower c)"
  by (auto simp: ascii_lower_def ascii_upper_case_def ascii_isalnum_def)

lemma ascii_lower_ascii: "c < 0x80 \<Longrightarrow> ascii_lower c < 0x80"
  by (auto simp: ascii_lower_def ascii_upper_case_def)

lemma str_replace_char_drop: "str_replace_char u [] v = filter (\<lambda>c. c \<noteq> u) v"
  by (induction v) (simp_all add: str_replace_char_def)

lemma strip_lower:
  "filter (\<lambda>c. c \<noteq> 0x5F) (map ascii_lower v) = map ascii_lower (filter (\<lambda>c. c \<noteq> 0x5F) v)"
  by (induction v) (simp_all add: ascii_lower_underscore)

lemma accepted_ascii_username_again:
  assumes db: "agrees_on_ascii db" and v: "isascii v" and ok: "validate_username db v = Inr r"
  shows "r = map ascii_lower v" and "validate_username db r = Inr r"
proof -
  have low: "str_lower db w = map ascii_lower w" if "isascii w" for w
    using db that by (simp add: agrees_on_ascii_def)
  have aln: "cp_isalnum db c = ascii_isalnum c" if "c < 0x80" for c
    using db that by (simp add: agrees_on_ascii_def)
  show r: "r = map ascii_lower v"
    using ok low [OF v] by (simp add: validate_username_def split: if_splits)
  have ra: "isascii r"
    using v by (simp add: r isascii_def list_all_iff ascii_lower_ascii)
  have acc: "str_isalnum db (filter (\<lambda>c. c \<noteq> 0x5F) v)"
    using ok by (simp add: validate_username_def str_replace_char_drop split: if_splits)
  have "str_isalnum db (filter (\<lambda>c. c \<noteq> 0x5F) r)"
    unfolding r strip_lower using acc v
    by (auto simp: str_isalnum_def list_all_iff isascii_def aln ascii_lower_ascii
        intro: ascii_lower_isalnum)
  moreover have "str_lower db r = r"
    using low [OF ra] by (simp add: r ascii_lower_idem)
  ultimately show "validate_username db r = Inr r"
    by (simp add: validate_username_def str_replace_char_drop)
qed


lemma excerpt_lower_ascii:
  "isascii v \<Longrightarrow> concat (map excerpt_lower_cp v) = map ascii_lower v"
  by (induction v) (simp_all add: isascii_def excerpt_lower_cp_def)

lemma unicode_excerpt_agrees: "agrees_on_ascii unicode_excerpt"
  by (simp add: agrees_on_ascii_def unicode_excerpt_def excerpt_isalnum_def excerpt_lower_ascii)

text \<open>
  C9, amended. For every Unicode database that agrees with Unicode on ASCII:
  \<open>validate_username\<close> accepts \<open>v\<close> exactly when \<open>v\<close> without its underscores is
  non-empty and all alphanumeric, and then returns \<open>v.lower()\<close>; the empty string and a
  string of underscores only are rejected with ValueError; and when \<open>v\<close> is ASCII, the
  accepted result has no upper-case letter, is its own lower case, and is accepted again
  unchanged.
\<close>

theorem validate_username_ascii:
  assumes "agrees_on_ascii db"
  shows "validate_username db v =
           (if str_replace_char 0x5F [] v \<noteq> []
               \<and> list_all (cp_isalnum db) (str_replace_char 0x5F [] v)
            then Inr (str_lower db v) else Inl ValueError)
         \<and> validate_username db [] = Inl ValueError
         \<and> validate_username db (replicate n 0x5F) = Inl ValueError
         \<and> (isascii v \<and> validate_username db v = Inr r \<longrightarrow>
              list_all (\<lambda>c. \<not> ascii_upper_case c) r
              \<and> str_lower db r = r
              \<and> validate_username db r = Inr r)"
proof (intro conjI impI)
  show "validate_username db v =
      (if str_replace_char 0x5F [] v \<noteq> [] \<and> list_all (cp_isalnum db) (str_replace_char 0x5F [] v)
       then Inr (str_lower db v) else Inl ValueError)"
    by (simp add: validate_username_def str_isalnum_def)
  show "validate_username db [] = Inl ValueError"
    by (simp add: validate_username_def str_isalnum_def str_replace_char_def)
  show "validate_username db (replicate n 0x5F) = Inl ValueError"
    by (simp add: validate_username_def str_isalnum_def str_replace_char_drop)
next
  assume a: "isascii v \<and> validate_username db v = Inr r"
  then have r: "r = map ascii_lower v" and again: "validate_username db r = Inr r"
    using accepted_ascii_username_again [OF assms] by blast+
  show "list_all (\<lambda>c. \<not> ascii_upper_case c) r"
    by (simp add: r list_all_iff ascii_lower_not_upper)
  show "validate_username db r = Inr r"
    by (rule again)
  then show "str_lower db r = r"
    by (simp add: validate_username_def split: if_splits)
qed

theorem validate_username_ascii_witness:
  "agrees_on_ascii unicode_excerpt
   \<and> isascii (str_of ''Aditya_Pm'')
   \<and> validate_username unicode_excerpt (str_of ''Aditya_Pm'') = Inr (str_of ''aditya_pm'')
   \<and> list_all (\<lambda>c. \<not> ascii_upper_case c) (str_of ''aditya_pm'')
   \<and> validate_username unicode_excerpt (str_of ''aditya_pm'') = Inr (str_of ''aditya_pm'')
   \<and> validate_username unicode_excerpt (str_of ''___'') = Inl ValueError"
proof -
  note T = validate_username_ascii [OF unicode_excerpt_agrees,
      of "str_of ''Aditya_Pm''" 3 "str_of ''aditya_pm''"]
  have a: "isascii (str_of ''Aditya_Pm'')"
    by (simp add: isascii_def str_of_def)
  have b: "validate_username unicode_excerpt (str_of ''Aditya_Pm'') = Inr (str_of ''aditya_pm'')"
    by (simp add: validate_username_def unicode_excerpt_def str_isalnum_def str_replace_char_def
        excerpt_isalnum_def excerpt_lower_cp_def ascii_isalnum_def ascii_lower_def
        ascii_upper_case_def str_of_def)
  have c: "list_all (\<lambda>c. \<not> ascii_upper_case c) (str_of ''aditya_pm'')"
    and d: "validate_username unicode_excerpt (str_of ''aditya_pm'') = Inr (str_of ''aditya_pm'')"
    using T a b by blast+
  have e: "str_of ''___'' = replicate 3 0x5F"
    by (simp add: str_of_def numeral_3_eq_3)
  have f: "validate_username unicode_excerpt (str_of ''___'') = Inl ValueError"
    unfolding e using T by blast
  show ?thesis
    by (intro conjI unicode_excerpt_agrees a b c d f)
qed

text \<open>
  Outside ASCII the validator is not idempotent on accepted values: the three-character
  name \<open>a\<close>, \<open>b\<close>, U+0130 is accepted (U+0130 is a letter) and returns the four
  code points \<open>a\<close>, \<open>b\<close>, U+0069, U+0307, whose last one is a combining mark, so
  validating the result raises ValueError.
\<close>

theorem validate_username_not_idempotent:
  "validate_username unicode_excerpt [0x61, 0x62, 0x130] = Inr [0x61, 0x62, 0x69, 0x307]
   \<and> validate_username unicode_excerpt [0x61, 0x62, 0x69, 0x307] = Inl ValueError"
  by (simp add: validate_username_def unicode_excerpt_def str_isalnum_def str_replace_char_def
      excerpt_isalnum_def excerpt_lower_cp_def ascii_isalnum_def ascii_lower_def
      ascii_upper_case_def)


section \<open>The URL scheme validator\<close>

lemma startswith_https_prefix: "startswith (str_of ''https://'' @ s) url_schemes"
  by (simp add: startswith_def url_schemes_def str_of_def)

text \<open>
  C10. \<open>add_https\<close> is idempotent on every \<open>v\<close> that is a string or \<open>None\<close>. It
  returns \<open>None\<close> and the empty string unchanged, returns unchanged a string that
  starts with \<open>http://\<close> or \<open>https://\<close>, and puts \<open>https://\<close> in front of every
  other non-empty string; so every non-empty string it returns starts with one of the
  two schemes.
\<close>

theorem add_https_idempotent:
  "add_https (add_https v) = add_https v
   \<and> add_https None = None
   \<and> add_https (Some []) = Some []
   \<and> (startswith s url_schemes \<longrightarrow> add_https (Some s) = Some s)
   \<and> (t \<noteq> [] \<and> \<not> startswith t url_schemes
        \<longrightarrow> add_https (Some t) = Some (str_of ''https://'' @ t))
   \<and> (add_https v = Some r \<and> r \<noteq> [] \<longrightarrow> startswith r url_schemes)"
proof (intro conjI impI)
  show "add_https (add_https v) = add_https v"
    using startswith_https_prefix
    by (simp add: add_https_def truthy_def split: option.splits)
  show "add_https None = None"
    by (simp add: add_https_def)
  show "add_https (Some []) = Some []"
    by (simp add: add_https_def truthy_def)
  show "add_https (Some s) = Some s" if "startswith s url_schemes"
    using that by (simp add: add_https_def)
  show "add_https (Some t) = Some (str_of ''https://'' @ t)"
    if "t \<noteq> [] \<and> \<not> startswith t url_schemes"
    using that by (simp add: add_https_def truthy_def)
  show "startswith r url_schemes" if "add_https v = Some r \<and> r \<noteq> []"
    using that startswith_https_prefix
    by (auto simp: add_https_def truthy_def split: option.splits if_splits)
qed

theorem add_https_idempotent_witness:
  "startswith (str_of ''http://aditya.com'') url_schemes
   \<and> add_https (Some (str_of ''http://aditya.com'')) = Some (str_of ''http://aditya.com'')
   \<and> str_of ''aditya.com'' \<noteq> [] \<and> \<not> startswith (str_of ''aditya.com'') url_schemes
   \<and> add_https (Some (str_of ''aditya.com'')) = Some (str_of ''https://aditya.com'')
   \<and> startswith (str_of ''https://aditya.com'') url_schemes
   \<and> add_https (add_https (Some (str_of ''aditya.com''))) = Some (str_of ''https://aditya.com'')"
proof -
  note T = add_https_idempotent [of "Some (str_of ''aditya.com'')" "str_of ''http://aditya.com''"
      "str_of ''aditya.com''" "str_of ''https://aditya.com''"]
  have a: "startswith (str_of ''http://aditya.com'') url_schemes"
    by (simp add: startswith_def url_schemes_def str_of_def)
  have b1: "str_of ''aditya.com'' \<noteq> []"
    and b2: "\<not> startswith (str_of ''aditya.com'') url_schemes"
    by (simp_all add: startswith_def url_schemes_def str_of_def)
  have c: "str_of ''https://'' @ str_of ''aditya.com'' = str_of ''https://aditya.com''"
    by (simp add: str_of_def)
  have d: "str_of ''https://aditya.com'' \<noteq> []"
    by (simp add: str_of_def)
  have e: "add_https (Some (str_of ''http://aditya.com'')) = Some (str_of ''http://aditya.com'')"
    using T a by blast
  have f: "add_https (Some (str_of ''aditya.com'')) = Some (str_of ''https://aditya.com'')"
    using T b1 b2 c by metis
  have g: "startswith (str_of ''https://aditya.com'') url_schemes"
    using T f d by blast
  have h: "add_https (add_https (Some (str_of ''aditya.com''))) = Some (str_of ''https://aditya.com'')"
    using T f by metis
  show ?thesis
    by (intro conjI a b1 b2 e f g h)
qed


section \<open>Aggregated validation errors\<close>

lemma email_of_invalid_user_matches:
  "matches email_pattern (str_of ''aditya@email.com'')"
  by code_simp

text \<open>
  C2. Constructing \<open>User\<close> from \<open>uid=0\<close>, \<open>username="cs"\<close>,
  \<open>email="aditya@email.com"\<close>, \<open>age=12\<close> raises one ValidationError holding exactly
  three field errors, for \<open>uid\<close>, \<open>username\<close> and \<open>age\<close>; the email matches its
  pattern and contributes none.
\<close>

theorem annotated_User_three_errors:
  "annotated_User invalid_user =
     Inl [(''uid'', greater_than), (''username'', string_too_short),
          (''age'', greater_than_equal)]
   \<and> field_pattern email_pattern (email invalid_user) = []"
proof -
  have e: "email invalid_user = str_of ''aditya@email.com''"
    and n: "length (username invalid_user) = 2"
    and u: "uid invalid_user = 0" and a: "age invalid_user = 12"
    by (simp_all add: invalid_user_def str_of_def)
  have p: "field_pattern email_pattern (email invalid_user) = []"
    by (simp add: e field_pattern_def email_of_invalid_user_matches)
  show ?thesis
    by (simp add: annotated_User_def p n u a field_gt_def field_length_def field_ge_le_def)
qed


section \<open>What the process pool demo prints\<close>

lemma py_range_5: "py_range 5 = [0, 1, 2, 3, 4]"
  by (simp add: py_range_def upt_rec)

lemma picklable_cases:
  "picklable top_level_task" "picklable compute"
  "\<not> picklable nested_task" "\<not> picklable lambda_task"
  by (simp_all add: picklable_def module_names_def)

text \<open>
  C3. Submitting the module-level \<open>top_level_task\<close> for 0..4 yields
  \<open>[0, 1, 4, 9, 16]\<close>, and the module-level \<open>compute\<close> with \<open>Picklable(0..4)\<close>
  yields \<open>[0, 2, 4, 6, 8]\<close>; submitting the function nested in \<open>main\<close> or the lambda
  raises the serialization failure, which the script catches and prints instead of
  results, and \<open>main\<close> runs to its end.
\<close>

theorem main_output:
  "pool_results top_level_task (map PyInt (py_range 5)) =
     Inr [PyInt 0, PyInt 1, PyInt 4, PyInt 9, PyInt 16]
   \<and> pool_results compute (map Picklable (py_range 5)) =
     Inr [PyInt 0, PyInt 2, PyInt 4, PyInt 6, PyInt 8]
   \<and> pool_results nested_task (map PyInt (py_range 5)) = Inl PicklingError
   \<and> pool_results lambda_task (map PyInt (py_range 5)) = Inl PicklingError
   \<and> main =
     Inr [Results [PyInt 0, PyInt 1, PyInt 4, PyInt 9, PyInt 16],
          Caught_exception PicklingError, Caught_exception PicklingError,
          Results [PyInt 0, PyInt 2, PyInt 4, PyInt 6, PyInt 8]]"
proof -
  have a: "pool_results top_level_task (map PyInt (py_range 5)) =
      Inr [PyInt 0, PyInt 1, PyInt 4, PyInt 9, PyInt 16]"
    by (simp add: pool_results_def submit_result_def picklable_cases py_range_5)
  have b: "pool_results compute (map Picklable (py_range 5)) =
      Inr [PyInt 0, PyInt 2, PyInt 4, PyInt 6, PyInt 8]"
    by (simp add: pool_results_def submit_result_def picklable_cases py_range_5)
  have c: "pool_results nested_task (map PyInt (py_range 5)) = Inl PicklingError"
    by (simp add: pool_results_def submit_result_def picklable_cases py_range_5)
  have d: "pool_results lambda_task (map PyInt (py_range 5)) = Inl PicklingError"
    by (simp add: pool_results_def submit_result_def picklable_cases py_range_5)
  have "main =
     Inr [Results [PyInt 0, PyInt 1, PyInt 4, PyInt 9, PyInt 16],
          Caught_exception PicklingError, Caught_exception PicklingError,
          Results [PyInt 0, PyInt 2, PyInt 4, PyInt 6, PyInt 8]]"
    by (simp add: main_def a b c d try_block_def)
  with a b c d show ?thesis by simp
qed


section \<open>The registered routes\<close>

text \<open>
  The script registers a third path: \<open>/about\<close> is served, by the handler of \<open>/info\<close>,
  and the blog script registers \<open>/api/posts\<close>.
\<close>

theorem basic_app_serves_about:
  "basic_serve ''/about'' = Some (HTMLResponse, HtmlBody ''<h1>This is the HTML response page</h1>'')
   \<and> ''/about'' \<noteq> ''/'' \<and> ''/about'' \<noteq> ''/info''
   \<and> ''/api/posts'' \<in> set (map path blog_app)"
  by (simp add: basic_serve_def find_route_def basic_app_def blog_app_def app_get_def)

text \<open>
  C4, amended. The routing script 00\_basic.py registers exactly three GET paths
  through two handlers: the root path, whose handler returns a dict with the single key
  \<open>message\<close>, and the paths \<open>/info\<close> and \<open>/about\<close>, which share one handler
  returning an HTML fragment; every other path is not served by it. The blog script
  registers \<open>/posts\<close>, \<open>/\<close> and \<open>/api/posts\<close>.
\<close>

theorem basic_app_routes:
  "basic_serve p =
     (if p = ''/'' then Some (JSONResponse, JsonDict [(''message'', ''Hello World!'')])
      else if p = ''/info'' \<or> p = ''/about''
      then Some (HTMLResponse, HtmlBody ''<h1>This is the HTML response page</h1>'')
      else None)
   \<and> map path basic_app = [''/'', ''/info'', ''/about'']
   \<and> map endpoint basic_app = [home, about, about]
   \<and> map path blog_app = [''/posts'', ''/'', ''/api/posts'']
   \<and> map endpoint blog_app = [blog_home, blog_home, get_posts]"
  by (auto simp: basic_serve_def find_route_def basic_app_def blog_app_def app_get_def)

end
